theory Spec2Isabelle
  imports Main "HOL-Library.Word" "HOL-Library.AList"
begin

section \<open>Basic types: bytes, instants and durations\<close>

text \<open>
  A Go \<open>[]byte\<close> and a Go \<open>string\<close> are both sequences of bytes; an Isabelle
  \<open>char\<close> is one byte, so both are modelled as \<open>string\<close>.

  An instant (\<open>time.Time\<close>) is the number of nanoseconds since the Unix epoch, an
  unbounded integer. A \<open>time.Duration\<close> is a signed 64-bit count of nanoseconds;
  \<open>Time.Sub\<close> saturates at the largest and smallest duration.
\<close>

type_synonym bytes = string
type_synonym Time = int

definition Second :: int where
  "Second = 1000000000"

definition Hour :: int where
  "Hour = 3600 * Second"

definition maxDuration :: int where
  "maxDuration = 2 ^ 63 - 1"

definition minDuration :: int where
  "minDuration = - (2 ^ 63)"

definition Sub :: "Time \<Rightarrow> Time \<Rightarrow> int" where
  "Sub t u = (let d = t - u in
     if d > maxDuration then maxDuration
     else if d < minDuration then minDuration
     else d)"

text \<open>\<open>time.Since(t)\<close> is \<open>time.Now().Sub(t)\<close>; the clock reading is a parameter.\<close>

definition Since :: "Time \<Rightarrow> Time \<Rightarrow> int" where
  "Since now t = Sub now t"

text \<open>\<open>Time.Unix()\<close>: whole seconds since the epoch, rounded down.\<close>

definition Unix :: "Time \<Rightarrow> int" where
  "Unix t = t div Second"

section \<open>Formatting: \<open>%d\<close> and hexadecimal\<close>

definition digit :: "nat \<Rightarrow> char" where
  "digit n = ''0123456789'' ! (n mod 10)"

fun dec_nat :: "nat \<Rightarrow> string" where
  "dec_nat n = (if n < 10 then [digit n] else dec_nat (n div 10) @ [digit (n mod 10)])"

declare dec_nat.simps [simp del]

text \<open>\<open>fmt.Sprintf("%d", i)\<close> for a signed integer.\<close>

definition sprintf_d :: "int \<Rightarrow> string" where
  "sprintf_d i = (if i < 0 then CHR ''-'' # dec_nat (nat (- i)) else dec_nat (nat i))"

definition hexdigit :: "nat \<Rightarrow> char" where
  "hexdigit n = ''0123456789abcdef'' ! (n mod 16)"

definition hex_byte :: "char \<Rightarrow> string" where
  "hex_byte c = [hexdigit (of_char c div 16), hexdigit (of_char c mod 16)]"

text \<open>\<open>hex.EncodeToString\<close>: two lower-case hexadecimal digits per byte.\<close>

definition EncodeToString :: "bytes \<Rightarrow> string" where
  "EncodeToString bs = concat (map hex_byte bs)"

section \<open>Entry\<close>

record Entry =
  Content :: bytes
  RenderedAt :: Time
  Strategy :: string
  ETag :: string
  RequestPath :: string
  Generation :: "64 word"
  stale :: bool

text \<open>
  The bytes that \<open>generateETag\<close> feeds to the hash: the content followed by
  \<open>fmt.Sprintf("%d:%d", generation, renderedAt.Unix())\<close>.
\<close>

definition fingerprint_input :: "bytes \<Rightarrow> 64 word \<Rightarrow> Time \<Rightarrow> bytes" where
  "fingerprint_input content generation renderedAt =
     content @ sprintf_d (sint generation) @ '':'' @ sprintf_d (Unix renderedAt)"

text \<open>
  \<open>generateETag\<close>. SHA-256 comes from the Go standard library; it is the parameter
  \<open>sha256\<close>, a function from the bytes written to the 32-byte digest.
\<close>

definition generateETag :: "(bytes \<Rightarrow> bytes) \<Rightarrow> bytes \<Rightarrow> 64 word \<Rightarrow> Time \<Rightarrow> string" where
  "generateETag sha256 content generation renderedAt =
     EncodeToString (sha256 (fingerprint_input content generation renderedAt))"

definition NewEntry :: "(bytes \<Rightarrow> bytes) \<Rightarrow> Time \<Rightarrow> bytes \<Rightarrow> string \<Rightarrow> string \<Rightarrow> Entry" where
  "NewEntry sha256 now content strategy requestPath =
     \<lparr> Content = content,
       RenderedAt = now,
       Strategy = strategy,
       ETag = generateETag sha256 content 1 now,
       RequestPath = requestPath,
       Generation = 1,
       stale = False \<rparr>"

definition IsStale :: "Entry \<Rightarrow> bool" where
  "IsStale e = stale e"

definition Entry_MarkStale :: "Entry \<Rightarrow> Entry" where
  "Entry_MarkStale e = e\<lparr>stale := True\<rparr>"

definition MarkFresh :: "Entry \<Rightarrow> Entry" where
  "MarkFresh e = e\<lparr>stale := False\<rparr>"

definition Update :: "(bytes \<Rightarrow> bytes) \<Rightarrow> Time \<Rightarrow> Entry \<Rightarrow> bytes \<Rightarrow> string \<Rightarrow> Entry" where
  "Update sha256 now e content requestPath =
     (let e1 = e\<lparr>Content := content\<rparr>;
          e2 = e1\<lparr>RenderedAt := now\<rparr>;
          e3 = e2\<lparr>Generation := Generation e2 + 1\<rparr>;
          e4 = e3\<lparr>ETag := generateETag sha256 content (Generation e3) (RenderedAt e3)\<rparr>;
          e5 = (if requestPath \<noteq> [] then e4\<lparr>RequestPath := requestPath\<rparr> else e4)
      in MarkFresh e5)"

definition ShouldRevalidate :: "Time \<Rightarrow> Entry \<Rightarrow> bool" where
  "ShouldRevalidate now e =
     (if Strategy e = ''immutable'' then False
      else if IsStale e then True
      else if Strategy e = ''incremental'' then Since now (RenderedAt e) > 24 * Hour
      else False)"

text \<open>
  The invariant that \<open>NewEntry\<close>, \<open>loadFromDisk\<close> and \<open>Update\<close> establish: the
  ETag of an entry is the fingerprint of its content, generation and render time.
\<close>

definition etag_ok :: "(bytes \<Rightarrow> bytes) \<Rightarrow> Entry \<Rightarrow> bool" where
  "etag_ok h e = (ETag e = generateETag h (Content e) (Generation e) (RenderedAt e))"

section \<open>Errors, the log and the external libraries\<close>

text \<open>
  A Go \<open>error\<close> is a value: an error of the \<open>os\<close> package (operation and path), a
  failure of the Brotli codec, a response status other than 200, or another error wrapped
  with a message by \<open>fmt.Errorf("...: %w", err)\<close>.
\<close>

datatype error =
    PathError string string
  | CodecError
  | StatusError nat
  | Wrapped string error

text \<open>
  A \<open>*slog.Logger\<close> is the list of records written to it, oldest first: the level and
  the message (the attributes are left out).
\<close>

datatype level = Debug | Info | Warn | Error

type_synonym log = "(level \<times> string) list"

text \<open>
  What the Brotli writer of the third-party codec does with a payload: its \<open>Write\<close>
  fails, its \<open>Close\<close> fails, or the buffer holds the encoded bytes.
\<close>

datatype encoded = WriteFails | CloseFails | Encoded bytes

text \<open>
  The libraries the cache calls and that are not part of the repository: SHA-256 (from
  the bytes written to the digest), the Brotli writer, and the Brotli reader (\<open>None\<close>
  when reading the stream fails).
\<close>

record Lib =
  sha256 :: "bytes \<Rightarrow> bytes"
  brotli_writer :: "bytes \<Rightarrow> encoded"
  brotli_reader :: "bytes \<Rightarrow> bytes option"

section \<open>Storage\<close>

text \<open>
  The cache directory: the files it holds, by name relative to \<open>baseDir\<close>, and the
  names on which the operating system refuses a read, a write or a removal.
\<close>

record Storage =
  files :: "string \<rightharpoonup> bytes"
  unreadable :: "string set"
  unwritable :: "string set"
  unremovable :: "string set"

definition WriteFile :: "Storage \<Rightarrow> string \<Rightarrow> bytes \<Rightarrow> error option \<times> Storage" where
  "WriteFile s p d =
     (if p \<in> unwritable s then (Some (PathError ''open'' p), s)
      else (None, s\<lparr>files := (files s)(p \<mapsto> d)\<rparr>))"

definition ReadFile :: "Storage \<Rightarrow> string \<Rightarrow> error + bytes" where
  "ReadFile s p =
     (case files s p of
        None \<Rightarrow> Inl (PathError ''open'' p)
      | Some d \<Rightarrow> if p \<in> unreadable s then Inl (PathError ''read'' p) else Inr d)"

text \<open>\<open>os.Stat\<close>: the error it returns, \<open>None\<close> when the file is there.\<close>

definition Stat :: "Storage \<Rightarrow> string \<Rightarrow> error option" where
  "Stat s p = (case files s p of None \<Rightarrow> Some (PathError ''stat'' p) | Some d \<Rightarrow> None)"

definition Remove :: "Storage \<Rightarrow> string \<Rightarrow> error option \<times> Storage" where
  "Remove s p =
     (case files s p of
        None \<Rightarrow> (Some (PathError ''remove'' p), s)
      | Some d \<Rightarrow>
          if p \<in> unremovable s then (Some (PathError ''remove'' p), s)
          else (None, s\<lparr>files := (files s)(p := None)\<rparr>))"

text \<open>\<open>strings.ReplaceAll\<close>, for a pattern that is not empty (every call site's is).\<close>

function ReplaceAll :: "string \<Rightarrow> string \<Rightarrow> string \<Rightarrow> string" where
  "ReplaceAll [] old new = []"
| "ReplaceAll (c # cs) old new =
     (if old \<noteq> [] \<and> take (length old) (c # cs) = old
      then new @ ReplaceAll (drop (length old) (c # cs)) old new
      else c # ReplaceAll cs old new)"
  by pat_completeness auto
termination
  by (relation "measure (\<lambda>(s, old, new). length s)") auto

definition TrimPrefix :: "string \<Rightarrow> string \<Rightarrow> string" where
  "TrimPrefix s p = (if take (length p) s = p then drop (length p) s else s)"

definition getCacheFileName :: "string \<Rightarrow> string" where
  "getCacheFileName cacheKey =
     (let name = ReplaceAll cacheKey ''/'' ''_'';
          name = ReplaceAll name '':'' ''_'';
          name = TrimPrefix name ''_''
      in name)"

definition Write :: "Storage \<Rightarrow> string \<Rightarrow> bytes \<Rightarrow> bytes \<Rightarrow> error option \<times> Storage" where
  "Write s cacheKey compressedContent uncompressedContent =
     (let fileName = getCacheFileName cacheKey;
          brPath = fileName @ ''.br''
      in case WriteFile s brPath compressedContent of
           (Some err, s1) \<Rightarrow> (Some (Wrapped ''failed to write brotli cache file'' err), s1)
         | (None, s1) \<Rightarrow>
             (let htmlPath = fileName @ ''.html''
              in case WriteFile s1 htmlPath uncompressedContent of
                   (Some err, s2) \<Rightarrow> (Some (Wrapped ''failed to write HTML cache file'' err), s2)
                 | (None, s2) \<Rightarrow> (None, s2)))"

definition ReadBrotli :: "Storage \<Rightarrow> string \<Rightarrow> error + bytes" where
  "ReadBrotli s cacheKey =
     (let fileName = getCacheFileName cacheKey;
          brPath = fileName @ ''.br''
      in case ReadFile s brPath of
           Inl err \<Rightarrow> Inl (Wrapped ''failed to read brotli cache file'' err)
         | Inr content \<Rightarrow> Inr content)"

definition ReadHTML :: "Storage \<Rightarrow> string \<Rightarrow> error + bytes" where
  "ReadHTML s cacheKey =
     (let fileName = getCacheFileName cacheKey;
          htmlPath = fileName @ ''.html''
      in case ReadFile s htmlPath of
           Inl err \<Rightarrow> Inl (Wrapped ''failed to read HTML cache file'' err)
         | Inr content \<Rightarrow> Inr content)"

definition Exists :: "Storage \<Rightarrow> string \<Rightarrow> bool" where
  "Exists s cacheKey =
     (let fileName = getCacheFileName cacheKey;
          brPath = fileName @ ''.br''
      in Stat s brPath = None)"

text \<open>\<open>Storage.Delete\<close> discards what both calls of \<open>os.Remove\<close> return.\<close>

definition Storage_Delete :: "Storage \<Rightarrow> string \<Rightarrow> error option \<times> Storage" where
  "Storage_Delete s cacheKey =
     (let fileName = getCacheFileName cacheKey;
          brPath = fileName @ ''.br'';
          htmlPath = fileName @ ''.html'';
          s1 = snd (Remove s brPath);
          s2 = snd (Remove s1 htmlPath)
      in (None, s2))"

definition CompressBrotli :: "Lib \<Rightarrow> bytes \<Rightarrow> error + bytes" where
  "CompressBrotli lib content =
     (case brotli_writer lib content of
        WriteFails \<Rightarrow> Inl (Wrapped ''failed to compress content'' CodecError)
      | CloseFails \<Rightarrow> Inl (Wrapped ''failed to close brotli writer'' CodecError)
      | Encoded buf \<Rightarrow> Inr buf)"

definition DecompressBrotli :: "Lib \<Rightarrow> bytes \<Rightarrow> error + bytes" where
  "DecompressBrotli lib compressed =
     (case brotli_reader lib compressed of
        None \<Rightarrow> Inl (Wrapped ''failed to decompress content'' CodecError)
      | Some buf \<Rightarrow> Inr buf)"

section \<open>Manager\<close>

text \<open>
  A goroutine started with \<open>go\<close> and not yet run: the durable write of \<open>Set\<close>, or
  the eager revalidation of the entries just marked stale.
\<close>

datatype task = WriteTask string bytes bytes | RevalidateTask "Entry list"

text \<open>
  The \<open>sync.Map\<close> of entries is an association list (\<open>Load\<close> is \<open>map_of\<close>,
  \<open>Store\<close> is \<open>AList.update\<close>, \<open>Delete\<close> is \<open>AList.delete\<close>); \<open>Range\<close> visits
  it in list order. The field \<open>spawned\<close> holds the goroutines started and not yet run.
  The router that \<open>SetRouter\<close> binds is used by the eager revalidation only and is left
  out.

  Names: the methods \<open>Set\<close> and \<open>set\<close> of the manager are \<open>Manager_Set\<close> and
  \<open>Manager_set\<close>; \<open>Storage.Delete\<close> is \<open>Storage_Delete\<close> and \<open>Manager.Delete\<close>
  is \<open>Delete\<close>; \<open>Entry.MarkStale\<close> is \<open>Entry_MarkStale\<close> and
  \<open>Manager.MarkStale\<close> is \<open>MarkStale\<close>. Every function that reads the clock takes
  the reading as its argument \<open>now\<close>.
\<close>

record Manager =
  entries :: "(string \<times> Entry) list"
  storage :: Storage
  logger :: log
  spawned :: "task list"

definition logs :: "level \<Rightarrow> string \<Rightarrow> Manager \<Rightarrow> Manager" where
  "logs lv msg m = m\<lparr>logger := logger m @ [(lv, msg)]\<rparr>"

definition loadFromDisk :: "Lib \<Rightarrow> Time \<Rightarrow> Manager \<Rightarrow> string \<Rightarrow> (error + Entry) \<times> Manager" where
  "loadFromDisk lib now m cacheKey =
     (case ReadBrotli (storage m) cacheKey of
        Inl err \<Rightarrow> (Inl (Wrapped ''failed to read brotli cache'' err), m)
      | Inr compressedContent \<Rightarrow>
          (let renderedAt = now;
               entry = \<lparr> Content = compressedContent,
                         RenderedAt = renderedAt,
                         Strategy = ''static'',
                         ETag = generateETag (sha256 lib) compressedContent 1 renderedAt,
                         RequestPath = [],
                         Generation = 1,
                         stale = False \<rparr>
           in (Inr entry, logs Debug ''loaded cache from disk'' m)))"

definition Get :: "Lib \<Rightarrow> Time \<Rightarrow> Manager \<Rightarrow> string \<Rightarrow> Entry option \<times> Manager" where
  "Get lib now m cacheKey =
     (case map_of (entries m) cacheKey of
        Some entry \<Rightarrow> (Some entry, m)
      | None \<Rightarrow>
          if Exists (storage m) cacheKey then
            (case loadFromDisk lib now m cacheKey of
               (Inl err, m1) \<Rightarrow> (None, logs Warn ''failed to load cache from disk'' m1)
             | (Inr entry, m1) \<Rightarrow>
                 (Some entry, m1\<lparr>entries := AList.update cacheKey entry (entries m1)\<rparr>))
          else (None, m))"

text \<open>The closure \<open>writeFunc\<close> of \<open>set\<close>.\<close>

definition writeFunc :: "Manager \<Rightarrow> string \<Rightarrow> bytes \<Rightarrow> bytes \<Rightarrow> Manager" where
  "writeFunc m cacheKey compressedContent uncompressedContent =
     (case Write (storage m) cacheKey compressedContent uncompressedContent of
        (Some err, s) \<Rightarrow> logs Error ''failed to write cache to disk'' (m\<lparr>storage := s\<rparr>)
      | (None, s) \<Rightarrow> m\<lparr>storage := s\<rparr>)"

definition Manager_set ::
  "Lib \<Rightarrow> Time \<Rightarrow> Manager \<Rightarrow> string \<Rightarrow> bytes \<Rightarrow> string \<Rightarrow> string \<Rightarrow> bool \<Rightarrow> error option \<times> Manager" where
  "Manager_set lib now m cacheKey uncompressedContent strategy requestPath sync =
     (let (compressedContent, m1) =
            (case CompressBrotli lib uncompressedContent of
               Inl err \<Rightarrow> (uncompressedContent, logs Error ''failed to compress cache content'' m)
             | Inr c \<Rightarrow> (c, m));
          m2 = (case map_of (entries m1) cacheKey of
                  Some existingEntry \<Rightarrow>
                    logs Debug ''cache updated''
                      (m1\<lparr>entries := AList.update cacheKey
                           (Update (sha256 lib) now existingEntry compressedContent requestPath)
                           (entries m1)\<rparr>)
                | None \<Rightarrow>
                    logs Debug ''cache created''
                      (m1\<lparr>entries := AList.update cacheKey
                           (NewEntry (sha256 lib) now compressedContent strategy requestPath)
                           (entries m1)\<rparr>));
          m3 = (if sync then writeFunc m2 cacheKey compressedContent uncompressedContent
                else m2\<lparr>spawned := spawned m2 @
                        [WriteTask cacheKey compressedContent uncompressedContent]\<rparr>)
      in (None, m3))"

definition Manager_Set ::
  "Lib \<Rightarrow> Time \<Rightarrow> Manager \<Rightarrow> string \<Rightarrow> bytes \<Rightarrow> string \<Rightarrow> string \<Rightarrow> error option \<times> Manager" where
  "Manager_Set lib now m cacheKey uncompressedContent strategy requestPath =
     Manager_set lib now m cacheKey uncompressedContent strategy requestPath False"

definition SetSync ::
  "Lib \<Rightarrow> Time \<Rightarrow> Manager \<Rightarrow> string \<Rightarrow> bytes \<Rightarrow> string \<Rightarrow> string \<Rightarrow> error option \<times> Manager" where
  "SetSync lib now m cacheKey uncompressedContent strategy requestPath =
     Manager_set lib now m cacheKey uncompressedContent strategy requestPath True"

text \<open>
  The scheduler runs the \<open>i\<close>-th waiting goroutine, when it is a durable write (the
  eager revalidation calls the router, which is outside this model, and stays waiting).
\<close>

definition run_spawned :: "nat \<Rightarrow> Manager \<Rightarrow> Manager" where
  "run_spawned i m =
     (if i < length (spawned m) then
        (case spawned m ! i of
           WriteTask cacheKey compressedContent uncompressedContent \<Rightarrow>
             writeFunc (m\<lparr>spawned := take i (spawned m) @ drop (Suc i) (spawned m)\<rparr>)
               cacheKey compressedContent uncompressedContent
         | RevalidateTask es \<Rightarrow> m)
      else m)"

definition Delete :: "Manager \<Rightarrow> string \<Rightarrow> error option \<times> Manager" where
  "Delete m cacheKey =
     (let m1 = m\<lparr>entries := AList.delete cacheKey (entries m)\<rparr>
      in case Storage_Delete (storage m1) cacheKey of
           (Some err, s) \<Rightarrow> (Some (Wrapped ''failed to delete cache from disk'' err), m1\<lparr>storage := s\<rparr>)
         | (None, s) \<Rightarrow> (None, m1\<lparr>storage := s\<rparr>))"

text \<open>
  The callback that \<open>MarkStale\<close> passes to \<open>Range\<close>, run over the entries in order.
  The closure's variables (\<open>count\<close>, \<open>staleEntries\<close> and the logger) are threaded
  through; an entry is updated in place. \<open>count\<close> is a natural number: it counts
  entries that the process holds in memory, which a Go \<open>int\<close> cannot run out of.
\<close>

fun MarkStale_Range ::
  "string \<Rightarrow> bool \<Rightarrow> (string \<times> Entry) list \<Rightarrow> nat \<times> Entry list \<times> log \<Rightarrow>
   (string \<times> Entry) list \<times> nat \<times> Entry list \<times> log" where
  "MarkStale_Range strategy eager [] acc = ([], acc)"
| "MarkStale_Range strategy eager ((key, entry) # rest) (count, staleEntries, lg) =
     (if Strategy entry = ''immutable'' then
        (let (rest', acc') = MarkStale_Range strategy eager rest (count, staleEntries, lg)
         in ((key, entry) # rest', acc'))
      else if Strategy entry = strategy then
        (let entry' = Entry_MarkStale entry;
             count' = count + 1;
             staleEntries' = (if eager then staleEntries @ [entry'] else staleEntries);
             lg' = lg @ [(Debug, ''marked cache as stale'')];
             (rest', acc') = MarkStale_Range strategy eager rest (count', staleEntries', lg')
         in ((key, entry') # rest', acc'))
      else
        (let (rest', acc') = MarkStale_Range strategy eager rest (count, staleEntries, lg)
         in ((key, entry) # rest', acc')))"

definition MarkStale :: "Manager \<Rightarrow> string \<Rightarrow> bool \<Rightarrow> nat \<times> Manager" where
  "MarkStale m strategy eager =
     (let (es, count, staleEntries, lg) =
            MarkStale_Range strategy eager (entries m) (0, [], logger m);
          m1 = logs Info ''marked caches as stale'' (m\<lparr>entries := es, logger := lg\<rparr>);
          m2 = (if eager \<and> length staleEntries > 0
                then m1\<lparr>spawned := spawned m1 @ [RevalidateTask staleEntries]\<rparr>
                else m1)
      in (count, m2))"

fun MarkAllStale_Range ::
  "bool \<Rightarrow> (string \<times> Entry) list \<Rightarrow> nat \<times> Entry list \<Rightarrow>
   (string \<times> Entry) list \<times> nat \<times> Entry list" where
  "MarkAllStale_Range eager [] acc = ([], acc)"
| "MarkAllStale_Range eager ((key, entry) # rest) (count, staleEntries) =
     (if Strategy entry = ''immutable'' then
        (let (rest', acc') = MarkAllStale_Range eager rest (count, staleEntries)
         in ((key, entry) # rest', acc'))
      else
        (let entry' = Entry_MarkStale entry;
             count' = count + 1;
             staleEntries' = (if eager then staleEntries @ [entry'] else staleEntries);
             (rest', acc') = MarkAllStale_Range eager rest (count', staleEntries')
         in ((key, entry') # rest', acc')))"

definition MarkAllStale :: "Manager \<Rightarrow> bool \<Rightarrow> nat \<times> Manager" where
  "MarkAllStale m eager =
     (let (es, count, staleEntries) = MarkAllStale_Range eager (entries m) (0, []);
          m1 = logs Info ''marked all caches as stale'' (m\<lparr>entries := es\<rparr>);
          m2 = (if eager \<and> length staleEntries > 0
                then m1\<lparr>spawned := spawned m1 @ [RevalidateTask staleEntries]\<rparr>
                else m1)
      in (count, m2))"

text \<open>\<open>GetCacheKey\<close>; the map of path parameters is the list of its pairs.\<close>

definition GetCacheKey :: "string \<Rightarrow> string \<Rightarrow> (string \<times> string) list \<Rightarrow> string" where
  "GetCacheKey canonical lang pathParams =
     foldl (\<lambda>key (param, v). ReplaceAll key (''{'' @ param @ ''}'') v) canonical pathParams
       @ '':'' @ lang"

definition GetDecompressedContent :: "Lib \<Rightarrow> Entry \<Rightarrow> error + bytes" where
  "GetDecompressedContent lib entry = DecompressBrotli lib (Content entry)"

section \<open>Bulk warming\<close>

text \<open>
  A route of the catalog. The field \<open>Strategy\<close> of the Go struct is \<open>RouteStrategy\<close>
  here, since \<open>Entry\<close> has a field of that name. \<open>Paths\<close> is a Go map: a missing
  language reads as the empty string.
\<close>

record RouteConfig =
  Canonical :: string
  Paths :: "string \<rightharpoonup> string"
  RouteStrategy :: string

text \<open>A call returns, or it panics.\<close>

datatype 'a outcome = Panics | Returns 'a

text \<open>
  What the request handler does with a GET request for a path that carries the bypass
  header, from a state of the manager: it panics, or the recorder holds a status code and
  a body and the manager is in a new state (the handler may call the manager itself, as
  the cache middleware of the repository does).
\<close>

datatype response = HandlerPanics | Recorded nat bytes Manager

text \<open>
  \<open>ConfigFS\<close> maps a file name to its bytes. The configuration's own logger is left
  out.
\<close>

record RebuildConfig =
  ConfigFS :: "string \<rightharpoonup> bytes"
  RoutesFile :: string
  Languages :: "string list"
  Router :: "string \<Rightarrow> Manager \<Rightarrow> response"
  ForceRebuild :: bool

definition path_for :: "RouteConfig \<Rightarrow> string \<Rightarrow> string" where
  "path_for route lang = (case Paths route lang of None \<Rightarrow> [] | Some p \<Rightarrow> p)"

fun Contains :: "string \<Rightarrow> string \<Rightarrow> bool" where
  "Contains [] sub = (sub = [])"
| "Contains (c # cs) sub = (take (length sub) (c # cs) = sub \<or> Contains cs sub)"

text \<open>
  The test that a worker of \<open>Bootstrap\<close> makes on a route taken from the channel: it
  calls \<open>cacheStaticRoute\<close> when the route is not dynamic and its canonical path has no
  \<open>{\<close>.
\<close>

definition warmable :: "RouteConfig \<Rightarrow> bool" where
  "warmable route = (RouteStrategy route \<noteq> ''dynamic'' \<and> \<not> Contains (Canonical route) ''{'')"

text \<open>
  \<open>makeCacheRequest\<close>. \<open>httptest.NewRequest\<close> builds the request line
  \<open>GET path HTTP/1.0\<close> and panics when \<open>http.ReadRequest\<close> refuses it; both are
  library functions, and \<open>request_target\<close> is the parameter that says which paths are
  accepted. Then the handler runs, and a status other than 200 is returned as an error.
\<close>

definition makeCacheRequest ::
  "(string \<Rightarrow> bool) \<Rightarrow> (string \<Rightarrow> Manager \<Rightarrow> response) \<Rightarrow> Manager \<Rightarrow> string \<Rightarrow>
   ((error + bytes) \<times> Manager) outcome" where
  "makeCacheRequest request_target router m path =
     (if \<not> request_target path then Panics
      else
        (case router path m of
           HandlerPanics \<Rightarrow> Panics
         | Recorded code body m' \<Rightarrow>
             if code \<noteq> 200 then Returns (Inl (StatusError code), m')
             else Returns (Inr body, m')))"

text \<open>
  The body of the goroutine that \<open>cacheStaticRoute\<close> starts for one language, from a
  state of the manager and of the counter \<open>count\<close> (an \<open>atomic.Int32\<close>) that it
  shares with the goroutines of the other languages. The goroutines of a route run
  together, and the workers of \<open>Bootstrap\<close> handle ten routes together; none of them
  recovers from a panic, so a panic in one goroutine ends the process. The pool of
  workers and the order in which the goroutines run are not modelled.
\<close>

definition cacheStaticRoute_go ::
  "(string \<Rightarrow> bool) \<Rightarrow> Lib \<Rightarrow> Time \<Rightarrow> RouteConfig \<Rightarrow> RebuildConfig \<Rightarrow>
   Manager \<times> 32 word \<Rightarrow> string \<Rightarrow> (Manager \<times> 32 word) outcome" where
  "cacheStaticRoute_go request_target lib now route config acc lang =
     (let (m, count) = acc;
          cacheKey = GetCacheKey (Canonical route) lang [];
          (found, m1) = (if \<not> ForceRebuild config then Get lib now m cacheKey else (None, m))
      in if \<not> ForceRebuild config \<and> found \<noteq> None then Returns (m1, count)
         else
           (let path = path_for route lang
            in if path = [] then Returns (m1, count)
               else
                 (case makeCacheRequest request_target (Router config) m1 path of
                    Panics \<Rightarrow> Panics
                  | Returns (Inl err, m2) \<Rightarrow> Returns (m2, count)
                  | Returns (Inr content, m2) \<Rightarrow>
                      (case SetSync lib now m2 cacheKey content (RouteStrategy route) path of
                         (Some err, m3) \<Rightarrow> Returns (m3, count)
                       | (None, m3) \<Rightarrow> Returns (m3, count + 1)))))"

section \<open>Revalidator\<close>

text \<open>
  Instants are read on the wall clock of \<open>now.Location()\<close>, taken to have a fixed
  offset, so that a calendar day is 24 hours and
  \<open>time.Date(now.Year(), now.Month(), now.Day(), hour, 0, 0, 0, now.Location())\<close> is the
  start of the day of \<open>now\<close> plus \<open>hour\<close> hours.
\<close>

definition Date_today :: "Time \<Rightarrow> int \<Rightarrow> Time" where
  "Date_today now hour = now - now mod (24 * Hour) + hour * Hour"

text \<open>
  The state that \<open>Start\<close> sets up: the ticker (the instant \<open>time.NewTicker\<close> was
  called and its period), and the instant at which the goroutine's \<open>time.Sleep\<close> ends.
\<close>

record Revalidator =
  ticker :: "(Time \<times> int) option"
  wakes :: "Time option"

definition NewRevalidator :: Revalidator where
  "NewRevalidator = \<lparr> ticker = None, wakes = None \<rparr>"

definition Start :: "Time \<Rightarrow> Revalidator \<Rightarrow> int \<Rightarrow> Revalidator" where
  "Start now rv revalidationHour =
     (let next = Date_today now revalidationHour;
          next = (if next < now then next + 24 * Hour else next);
          initialDelay = Sub next now
      in rv\<lparr> ticker := Some (now, 24 * Hour), wakes := Some (now + max 0 initialDelay) \<rparr>)"

text \<open>
  The instant of the \<open>k\<close>-th call of \<open>revalidateIncremental\<close> (the first is number 0)
  while \<open>Stop\<close> is not called, on a clock where the calls themselves take no time:
  the first when the sleep ends, the \<open>k\<close>-th after it when the ticker delivers its
  \<open>k\<close>-th tick, \<open>k\<close> periods after the ticker was made. For an hour from 0 to 23
  the sleep is shorter than one period, so the goroutine is waiting when the first tick
  comes.
\<close>

definition fires_at :: "Revalidator \<Rightarrow> nat \<Rightarrow> Time option" where
  "fires_at rv k =
     (case (wakes rv, ticker rv) of
        (Some wake, Some (made, period)) \<Rightarrow> Some (if k = 0 then wake else made + int k * period)
      | _ \<Rightarrow> None)"

definition revalidateIncremental :: "Manager \<Rightarrow> nat \<times> Manager" where
  "revalidateIncremental m = MarkStale m ''incremental'' True"

section \<open>Specification helpers and example data\<close>

text \<open>
  The bytes that \<open>set\<close> keeps in memory and writes as the compressed file: the output
  of \<open>CompressBrotli\<close>, or the payload itself when compression fails.
\<close>

definition compressed_or_raw :: "Lib \<Rightarrow> bytes \<Rightarrow> bytes" where
  "compressed_or_raw lib c = (case CompressBrotli lib c of Inl err \<Rightarrow> c | Inr z \<Rightarrow> z)"

text \<open>
  The entry that \<open>set\<close> leaves in the index under its key: the existing entry
  updated, or a new entry.
\<close>

definition stored_entry :: "Lib \<Rightarrow> Time \<Rightarrow> Manager \<Rightarrow> string \<Rightarrow> bytes \<Rightarrow> string \<Rightarrow> string \<Rightarrow> Entry" where
  "stored_entry lib now m k c st rp =
     (let cc = (case CompressBrotli lib c of Inl err \<Rightarrow> c | Inr z \<Rightarrow> z)
      in case map_of (entries m) k of
           Some e \<Rightarrow> Update (sha256 lib) now e cc rp
         | None \<Rightarrow> NewEntry (sha256 lib) now cc st rp)"

text \<open>
  Example data: libraries whose codec and hash are the identity, a codec whose writer
  fails on \<open>Close\<close>, an empty cache directory and directories with files and faults.
\<close>

definition lib0 :: Lib where
  "lib0 = \<lparr> sha256 = (\<lambda>b. b), brotli_writer = Encoded, brotli_reader = Some \<rparr>"

definition lib_fail :: Lib where
  "lib_fail = lib0\<lparr>brotli_writer := (\<lambda>b. CloseFails)\<rparr>"

definition disk0 :: Storage where
  "disk0 = \<lparr> files = Map.empty, unreadable = {}, unwritable = {}, unremovable = {} \<rparr>"

definition disk1 :: Storage where
  "disk1 = disk0\<lparr>files := [''about_en.br'' \<mapsto> ''BR'', ''about_en.html'' \<mapsto> ''<p>about</p>'']\<rparr>"

definition disk_a :: Storage where
  "disk_a = disk0\<lparr>files := [''a_b_en.br'' \<mapsto> ''BR1'', ''a_b_en.html'' \<mapsto> ''one'']\<rparr>"

definition disk_b :: Storage where
  "disk_b = disk0\<lparr>files := [''a_b_en.br'' \<mapsto> ''BR2'', ''a_b_en.html'' \<mapsto> ''two'']\<rparr>"

definition manager0 :: Manager where
  "manager0 = \<lparr> entries = [], storage = disk0, logger = [], spawned = [] \<rparr>"

definition entry0 :: Entry where
  "entry0 = NewEntry (sha256 lib0) 0 ''BR'' ''incremental'' ''/en/about''"

definition manager_ro :: Manager where
  "manager_ro = manager0\<lparr>storage := disk0\<lparr>unwritable := {''about_en.br''}\<rparr>\<rparr>"

definition manager_locked :: Manager where
  "manager_locked =
     \<lparr> entries = [(''/about:en'', entry0)],
       storage = disk1\<lparr>unremovable := {''about_en.br'', ''about_en.html''}\<rparr>,
       logger = [], spawned = [] \<rparr>"

text \<open>
  A stand-in for the parser of the request line: it accepts the targets that start with
  a slash and hold no space. For the path \<open>/en/about us\<close> the request line is
  \<open>GET /en/about us HTTP/1.0\<close>, whose protocol version reads \<open>us HTTP/1.0\<close>, and
  \<open>http.ReadRequest\<close> refuses it.
\<close>

definition request_target0 :: "string \<Rightarrow> bool" where
  "request_target0 target = (take 1 target = ''/'' \<and> CHR '' '' \<notin> set target)"

text \<open>
  A catalog of one static route with one language, whose path holds a space, and a
  handler that answers every request with status 200.
\<close>

definition route_typo :: RouteConfig where
  "route_typo =
     \<lparr> Canonical = ''/about'',
       Paths = [''en'' \<mapsto> ''/en/about us''],
       RouteStrategy = ''static'' \<rparr>"

definition config_typo :: RebuildConfig where
  "config_typo =
     \<lparr> ConfigFS = [''routes.json'' \<mapsto> ''{}''],
       RoutesFile = ''routes.json'',
       Languages = [''en''],
       Router = (\<lambda>path m. Recorded 200 (''<p>'' @ path @ ''</p>'') m),
       ForceRebuild = False \<rparr>"

text \<open>An entry whose generation is the largest \<open>int64\<close>.\<close>

definition entry_max :: Entry where
  "entry_max = entry0\<lparr>Generation := 9223372036854775807\<rparr>"

section \<open>The revalidation policy\<close>

lemma Since_gt_day: "(Since now t > 24 * Hour) = (now - t > 24 * Hour)"
  by (simp add: Since_def Sub_def Let_def Hour_def Second_def maxDuration_def minDuration_def)

text \<open>
  C1. \<open>ShouldRevalidate\<close> follows the strategy table: an immutable entry never
  revalidates, whatever its stale flag; otherwise a stale entry revalidates; otherwise an
  incremental entry revalidates exactly when more than 24 hours have passed since it was
  rendered; every other strategy does not revalidate.
\<close>

theorem ShouldRevalidate_table:
  "ShouldRevalidate now e =
     (if Strategy e = ''immutable'' then False
      else if stale e then True
      else if Strategy e = ''incremental'' then now - RenderedAt e > 24 * 3600 * 1000000000
      else False)"
  using Since_gt_day [of now "RenderedAt e"]
  by (simp add: ShouldRevalidate_def IsStale_def Hour_def Second_def)

text \<open>
  The three rows that the specification gives as examples: immutable and stale; incremental,
  fresh and 25 hours old; static and fresh.
\<close>

lemma ShouldRevalidate_examples:
  "\<not> ShouldRevalidate now (e\<lparr>Strategy := ''immutable'', stale := True\<rparr>)"
  "ShouldRevalidate (t + 25 * Hour) (e\<lparr>Strategy := ''incremental'', stale := False, RenderedAt := t\<rparr>)"
  "\<not> ShouldRevalidate now (e\<lparr>Strategy := ''static'', stale := False\<rparr>)"
  by (simp_all add: ShouldRevalidate_def IsStale_def Since_def Sub_def Let_def Hour_def
      Second_def maxDuration_def minDuration_def)

section \<open>Reading through to the durable tier\<close>

lemma logs_simps [simp]:
  "entries (logs lv msg m) = entries m"
  "storage (logs lv msg m) = storage m"
  "spawned (logs lv msg m) = spawned m"
  "logger (logs lv msg m) = logger m @ [(lv, msg)]"
  by (simp_all add: logs_def)

lemma Exists_iff: "Exists s k = (files s (getCacheFileName k @ ''.br'') \<noteq> None)"
  by (simp add: Exists_def Stat_def split: option.splits)

lemma fn_about: "getCacheFileName ''/about:en'' = ''about_en''"
  by (simp add: getCacheFileName_def TrimPrefix_def)

text \<open>
  C2. \<open>Get\<close> looks in the memory index first and returns what it finds there. On a
  memory miss with the compressed file present and readable it builds an entry from the
  file's bytes (generation 1, not stale, strategy \<open>static\<close>), stores it in the memory
  index under the key and returns it. With no compressed file it reports not found and
  changes nothing. When the file is there and reading it fails, it reports not found as
  well (a miss, with a warning in the log), not an error.
\<close>

theorem Get_read_through:
  "(map_of (entries m) k = Some e \<longrightarrow> Get lib now m k = (Some e, m)) \<and>
   (map_of (entries m) k = None \<and> Exists (storage m) k \<and> ReadBrotli (storage m) k = Inr c \<longrightarrow>
      (case Get lib now m k of
         (Some e', m') \<Rightarrow>
            Content e' = c \<and> Generation e' = 1 \<and> \<not> stale e' \<and> Strategy e' = ''static'' \<and>
            RenderedAt e' = now \<and> RequestPath e' = [] \<and>
            ETag e' = generateETag (sha256 lib) c 1 now \<and>
            map_of (entries m') = (map_of (entries m))(k \<mapsto> e') \<and> storage m' = storage m
       | (None, m') \<Rightarrow> False)) \<and>
   (map_of (entries m) k = None \<and> \<not> Exists (storage m) k \<longrightarrow> Get lib now m k = (None, m)) \<and>
   (map_of (entries m) k = None \<and> Exists (storage m) k \<and> ReadBrotli (storage m) k = Inl err \<longrightarrow>
      fst (Get lib now m k) = None \<and>
      entries (snd (Get lib now m k)) = entries m \<and> storage (snd (Get lib now m k)) = storage m \<and>
      logger (snd (Get lib now m k)) = logger m @ [(Warn, ''failed to load cache from disk'')])"
  by (auto simp: Get_def loadFromDisk_def Let_def update_conv' split: option.splits sum.splits prod.splits)

theorem Get_read_through_witness:
  "Get lib0 5 (manager0\<lparr>entries := [(''/about:en'', entry0)]\<rparr>) ''/about:en''
     = (Some entry0, manager0\<lparr>entries := [(''/about:en'', entry0)]\<rparr>) \<and>
   (case Get lib0 5 (manager0\<lparr>storage := disk1\<rparr>) ''/about:en'' of
      (Some e', m') \<Rightarrow> Content e' = ''BR'' \<and> Generation e' = 1 \<and> \<not> stale e' \<and>
         Strategy e' = ''static'' \<and> map_of (entries m') ''/about:en'' = Some e'
    | (None, m') \<Rightarrow> False) \<and>
   Get lib0 5 manager0 ''/about:en'' = (None, manager0) \<and>
   fst (Get lib0 5 (manager0\<lparr>storage := disk1\<lparr>unreadable := {''about_en.br''}\<rparr>\<rparr>) ''/about:en'') = None"
proof -
  have a: "map_of (entries (manager0\<lparr>entries := [(''/about:en'', entry0)]\<rparr>)) ''/about:en'' = Some entry0"
    by simp
  have b: "map_of (entries (manager0\<lparr>storage := disk1\<rparr>)) ''/about:en'' = None \<and>
       Exists (storage (manager0\<lparr>storage := disk1\<rparr>)) ''/about:en'' \<and>
       ReadBrotli (storage (manager0\<lparr>storage := disk1\<rparr>)) ''/about:en'' = Inr ''BR''"
    by (simp add: manager0_def disk1_def disk0_def Exists_iff ReadBrotli_def ReadFile_def fn_about)
  have c: "map_of (entries manager0) ''/about:en'' = None \<and> \<not> Exists (storage manager0) ''/about:en''"
    by (simp add: manager0_def disk0_def Exists_iff)
  have d: "map_of (entries (manager0\<lparr>storage := disk1\<lparr>unreadable := {''about_en.br''}\<rparr>\<rparr>)) ''/about:en'' = None \<and>
       Exists (storage (manager0\<lparr>storage := disk1\<lparr>unreadable := {''about_en.br''}\<rparr>\<rparr>)) ''/about:en'' \<and>
       ReadBrotli (storage (manager0\<lparr>storage := disk1\<lparr>unreadable := {''about_en.br''}\<rparr>\<rparr>)) ''/about:en''
         = Inl (Wrapped ''failed to read brotli cache file'' (PathError ''read'' ''about_en.br''))"
    by (simp add: manager0_def disk1_def disk0_def Exists_iff ReadBrotli_def ReadFile_def fn_about)
  show ?thesis
    using a b c d
      Get_read_through [of "manager0\<lparr>entries := [(''/about:en'', entry0)]\<rparr>" "''/about:en''" entry0 lib0 5]
      Get_read_through [of "manager0\<lparr>storage := disk1\<rparr>" "''/about:en''" _ lib0 5 "''BR''"]
      Get_read_through [of manager0 "''/about:en''" _ lib0 5]
      Get_read_through [of "manager0\<lparr>storage := disk1\<lparr>unreadable := {''about_en.br''}\<rparr>\<rparr>" "''/about:en''" _ lib0 5 _
         "Wrapped ''failed to read brotli cache file'' (PathError ''read'' ''about_en.br'')"]
    by (simp split: prod.splits option.splits)
qed

section \<open>Storing an entry\<close>

lemma writeFunc_entries [simp]: "entries (writeFunc m k cc c) = entries m"
  by (simp add: writeFunc_def split: prod.splits option.splits)

lemma writeFunc_spawned [simp]: "spawned (writeFunc m k cc c) = spawned m"
  by (simp add: writeFunc_def split: prod.splits option.splits)

lemma writeFunc_logger:
  "logger (writeFunc m k cc c) =
     (if fst (Write (storage m) k cc c) = None then logger m
      else logger m @ [(Error, ''failed to write cache to disk'')])"
  by (simp add: writeFunc_def split: prod.splits option.splits)

lemma Manager_set_fst: "fst (Manager_set lib now m k c st rp sync) = None"
  by (simp add: Manager_set_def Let_def split: prod.splits sum.splits option.splits)

lemma Manager_set_entries:
  "map_of (entries (snd (Manager_set lib now m k c st rp sync))) =
     (map_of (entries m))(k \<mapsto> stored_entry lib now m k c st rp)"
  by (auto simp: Manager_set_def stored_entry_def Let_def update_conv'
      split: prod.splits sum.splits option.splits)

lemma Manager_set_async:
  "spawned (snd (Manager_set lib now m k c st rp False)) =
     spawned m @ [WriteTask k (case CompressBrotli lib c of Inl err \<Rightarrow> c | Inr z \<Rightarrow> z) c]
   \<and> storage (snd (Manager_set lib now m k c st rp False)) = storage m"
  by (auto simp: Manager_set_def Let_def split: prod.splits sum.splits option.splits)

lemma Manager_set_sync_log:
  "fst (Write (storage m) k (case CompressBrotli lib c of Inl err \<Rightarrow> c | Inr z \<Rightarrow> z) c) \<noteq> None \<Longrightarrow>
   last (logger (snd (Manager_set lib now m k c st rp True))) = (Error, ''failed to write cache to disk'')"
  by (auto simp: Manager_set_def Let_def writeFunc_logger split: prod.splits sum.splits option.splits)

lemma stored_entry_Content:
  "Content (stored_entry lib now m k c st rp) = (case CompressBrotli lib c of Inl err \<Rightarrow> c | Inr z \<Rightarrow> z)"
  by (simp add: stored_entry_def NewEntry_def Update_def MarkFresh_def Let_def split: option.splits sum.splits)

text \<open>
  C7. \<open>Set\<close> and \<open>SetSync\<close> never return an error. The entry under the key is
  created or updated in every case; its content is the compressed payload, or the payload
  itself when compression fails. A failed synchronous write is logged and the call still
  returns nil. \<open>Set\<close> only starts the write; when that write later fails, the failure
  is logged and the memory index is untouched.
\<close>

theorem Set_never_fails:
  "fst (Manager_Set lib now m k c st rp) = None \<and>
   fst (SetSync lib now m k c st rp) = None \<and>
   map_of (entries (snd (Manager_Set lib now m k c st rp))) k = Some (stored_entry lib now m k c st rp) \<and>
   map_of (entries (snd (SetSync lib now m k c st rp))) k = Some (stored_entry lib now m k c st rp) \<and>
   Content (stored_entry lib now m k c st rp) = compressed_or_raw lib c \<and>
   (CompressBrotli lib c = Inl err \<longrightarrow> compressed_or_raw lib c = c) \<and>
   (fst (Write (storage m) k (compressed_or_raw lib c) c) \<noteq> None \<longrightarrow>
      last (logger (snd (SetSync lib now m k c st rp))) = (Error, ''failed to write cache to disk'')) \<and>
   spawned (snd (Manager_Set lib now m k c st rp)) = spawned m @ [WriteTask k (compressed_or_raw lib c) c] \<and>
   (i < length (spawned m') \<and> spawned m' ! i = WriteTask k' cc' c' \<and>
    fst (Write (storage m') k' cc' c') \<noteq> None \<longrightarrow>
      entries (run_spawned i m') = entries m' \<and>
      logger (run_spawned i m') = logger m' @ [(Error, ''failed to write cache to disk'')])"
  by (simp add: Manager_Set_def SetSync_def Manager_set_fst Manager_set_entries Manager_set_async
      stored_entry_Content compressed_or_raw_def run_spawned_def writeFunc_logger
      Manager_set_sync_log)

theorem Set_never_fails_witness:
  "fst (Manager_Set lib_fail 5 manager_ro ''/about:en'' ''<p>about</p>'' ''static'' ''/en/about'') = None \<and>
   fst (SetSync lib_fail 5 manager_ro ''/about:en'' ''<p>about</p>'' ''static'' ''/en/about'') = None \<and>
   map_of (entries (snd (SetSync lib_fail 5 manager_ro ''/about:en'' ''<p>about</p>'' ''static'' ''/en/about''))) ''/about:en''
     = Some (NewEntry (sha256 lib_fail) 5 ''<p>about</p>'' ''static'' ''/en/about'') \<and>
   last (logger (snd (SetSync lib_fail 5 manager_ro ''/about:en'' ''<p>about</p>'' ''static'' ''/en/about'')))
     = (Error, ''failed to write cache to disk'') \<and>
   entries (run_spawned 0 (snd (Manager_Set lib_fail 5 manager_ro ''/about:en'' ''<p>about</p>'' ''static'' ''/en/about'')))
     = [(''/about:en'', NewEntry (sha256 lib_fail) 5 ''<p>about</p>'' ''static'' ''/en/about'')] \<and>
   last (logger (run_spawned 0 (snd (Manager_Set lib_fail 5 manager_ro ''/about:en'' ''<p>about</p>'' ''static'' ''/en/about''))))
     = (Error, ''failed to write cache to disk'')"
proof -
  let ?c = "''<p>about</p>''"
  let ?k = "''/about:en''"
  let ?m' = "snd (Manager_Set lib_fail 5 manager_ro ?k ?c ''static'' ''/en/about'')"
  have comp: "CompressBrotli lib_fail ?c = Inl (Wrapped ''failed to close brotli writer'' CodecError)"
    by (simp add: CompressBrotli_def lib_fail_def lib0_def)
  have raw: "compressed_or_raw lib_fail ?c = ?c"
    by (simp add: compressed_or_raw_def comp)
  have wr: "fst (Write (storage manager_ro) ?k ?c ?c) \<noteq> None"
    by (simp add: Write_def WriteFile_def manager_ro_def manager0_def disk0_def fn_about)
  have st: "stored_entry lib_fail 5 manager_ro ?k ?c ''static'' ''/en/about''
              = NewEntry (sha256 lib_fail) 5 ?c ''static'' ''/en/about''"
    by (simp add: stored_entry_def comp manager_ro_def manager0_def)
  have m': "?m' = \<lparr> entries = [(?k, NewEntry (sha256 lib_fail) 5 ?c ''static'' ''/en/about'')],
                     storage = disk0\<lparr>unwritable := {''about_en.br''}\<rparr>,
                     logger = [(Error, ''failed to compress cache content''), (Debug, ''cache created'')],
                     spawned = [WriteTask ?k ?c ?c] \<rparr>"
    by (simp add: Manager_Set_def Manager_set_def comp manager_ro_def manager0_def logs_def)
  have wr': "fst (Write (storage ?m') ?k ?c ?c) \<noteq> None"
    by (simp add: m' Write_def WriteFile_def disk0_def fn_about)
  show ?thesis
    using Set_never_fails [of lib_fail 5 manager_ro ?k ?c "''static''" "''/en/about''"
        "Wrapped ''failed to close brotli writer'' CodecError" 0 ?m' ?k ?c ?c] comp raw wr st wr'
    by (simp add: m')
qed

section \<open>Deleting an entry\<close>

text \<open>
  \<open>Delete\<close> never returns an error and always takes the key out of the memory index.
  Both files are gone afterwards when the operating system does not refuse to remove
  them.
\<close>

lemma Delete_never_errors: "fst (Delete m k) = None"
  by (simp add: Delete_def Storage_Delete_def Let_def)

lemma Delete_memory: "map_of (entries (snd (Delete m k))) k = None"
  by (simp add: Delete_def Storage_Delete_def Let_def delete_conv)

lemma Delete_files:
  "getCacheFileName k @ ''.br'' \<notin> unremovable (storage m) \<Longrightarrow>
   getCacheFileName k @ ''.html'' \<notin> unremovable (storage m) \<Longrightarrow>
   files (storage (snd (Delete m k))) (getCacheFileName k @ ''.br'') = None \<and>
   files (storage (snd (Delete m k))) (getCacheFileName k @ ''.html'') = None"
  by (auto simp: Delete_def Storage_Delete_def Remove_def Let_def split: option.splits)

text \<open>
  C8. A cache directory that refuses the removal of both files of \<open>/about:en\<close>:
  \<open>os.Remove\<close> fails for a reason other than absence, \<open>Delete\<close> still returns nil,
  and both files stay on disk, so the key is still served from the durable tier.
\<close>

theorem Delete_swallows_removal_failure:
  "fst (Delete manager_locked ''/about:en'') = None \<and>
   map_of (entries (snd (Delete manager_locked ''/about:en''))) ''/about:en'' = None \<and>
   Exists (storage (snd (Delete manager_locked ''/about:en''))) ''/about:en'' \<and>
   ReadBrotli (storage (snd (Delete manager_locked ''/about:en''))) ''/about:en'' = Inr ''BR'' \<and>
   ReadHTML (storage (snd (Delete manager_locked ''/about:en''))) ''/about:en'' = Inr ''<p>about</p>'' \<and>
   fst (Remove (storage manager_locked) ''about_en.br'') = Some (PathError ''remove'' ''about_en.br'')"
  by (simp add: Delete_def Storage_Delete_def Remove_def manager_locked_def disk1_def disk0_def
      fn_about Exists_iff ReadBrotli_def ReadHTML_def ReadFile_def Let_def)

section \<open>Marking entries stale\<close>

lemma MarkStale_Range_entries:
  "fst (MarkStale_Range s eager es (c, st, lg)) =
     map (\<lambda>(k, e). (k, if Strategy e = s \<and> Strategy e \<noteq> ''immutable'' then e\<lparr>stale := True\<rparr> else e)) es"
proof (induction es arbitrary: c st lg)
  case Nil
  show ?case by simp
next
  case (Cons p es)
  obtain key entry where p: "p = (key, entry)" by (cases p)
  show ?case
    by (simp add: p Cons.IH Entry_MarkStale_def Let_def case_prod_beta)
qed

lemma MarkStale_Range_count:
  "fst (snd (MarkStale_Range s eager es (c, st, lg))) =
     c + length (filter (\<lambda>(k, e). Strategy e = s \<and> Strategy e \<noteq> ''immutable'') es)"
proof (induction es arbitrary: c st lg)
  case Nil
  show ?case by simp
next
  case (Cons p es)
  obtain key entry where p: "p = (key, entry)" by (cases p)
  show ?case
    by (simp add: p Cons.IH Let_def case_prod_beta)
qed

lemma MarkAllStale_Range_entries:
  "fst (MarkAllStale_Range eager es (c, st)) =
     map (\<lambda>(k, e). (k, if Strategy e \<noteq> ''immutable'' then e\<lparr>stale := True\<rparr> else e)) es"
proof (induction es arbitrary: c st)
  case Nil
  show ?case by simp
next
  case (Cons p es)
  obtain key entry where p: "p = (key, entry)" by (cases p)
  show ?case
    by (simp add: p Cons.IH Entry_MarkStale_def Let_def case_prod_beta)
qed

lemma MarkAllStale_Range_count:
  "fst (snd (MarkAllStale_Range eager es (c, st))) =
     c + length (filter (\<lambda>(k, e). Strategy e \<noteq> ''immutable'') es)"
proof (induction es arbitrary: c st)
  case Nil
  show ?case by simp
next
  case (Cons p es)
  obtain key entry where p: "p = (key, entry)" by (cases p)
  show ?case
    by (simp add: p Cons.IH Let_def case_prod_beta)
qed

lemma MarkStale_fst:
  "fst (MarkStale m s eager) = fst (snd (MarkStale_Range s eager (entries m) (0, [], logger m)))"
  by (simp add: MarkStale_def Let_def split: prod.splits)

lemma MarkStale_entries:
  "entries (snd (MarkStale m s eager)) = fst (MarkStale_Range s eager (entries m) (0, [], logger m))"
  by (simp add: MarkStale_def Let_def split: prod.splits)

lemma MarkAllStale_fst:
  "fst (MarkAllStale m eager) = fst (snd (MarkAllStale_Range eager (entries m) (0, [])))"
  by (simp add: MarkAllStale_def Let_def split: prod.splits)

lemma MarkAllStale_entries:
  "entries (snd (MarkAllStale m eager)) = fst (MarkAllStale_Range eager (entries m) (0, []))"
  by (simp add: MarkAllStale_def Let_def split: prod.splits)

text \<open>
  C4. \<open>MarkStale\<close> sets the stale flag of exactly the entries in memory whose strategy
  is the given one and is not \<open>immutable\<close>, leaves every other entry as it was, and
  returns the number of entries it marked. \<open>MarkAllStale\<close> does the same for every entry
  whose strategy is not \<open>immutable\<close>. Neither changes an immutable entry.
\<close>

theorem MarkStale_exact:
  "fst (MarkStale m s eager) =
     length (filter (\<lambda>(k, e). Strategy e = s \<and> Strategy e \<noteq> ''immutable'') (entries m)) \<and>
   entries (snd (MarkStale m s eager)) =
     map (\<lambda>(k, e). (k, if Strategy e = s \<and> Strategy e \<noteq> ''immutable'' then e\<lparr>stale := True\<rparr> else e))
       (entries m) \<and>
   map_of (entries (snd (MarkStale m s eager))) k =
     map_option (\<lambda>e. if Strategy e = s \<and> Strategy e \<noteq> ''immutable'' then e\<lparr>stale := True\<rparr> else e)
       (map_of (entries m) k) \<and>
   fst (MarkAllStale m eager) =
     length (filter (\<lambda>(k, e). Strategy e \<noteq> ''immutable'') (entries m)) \<and>
   entries (snd (MarkAllStale m eager)) =
     map (\<lambda>(k, e). (k, if Strategy e \<noteq> ''immutable'' then e\<lparr>stale := True\<rparr> else e)) (entries m) \<and>
   map_of (entries (snd (MarkAllStale m eager))) k =
     map_option (\<lambda>e. if Strategy e \<noteq> ''immutable'' then e\<lparr>stale := True\<rparr> else e)
       (map_of (entries m) k)"
  by (simp add: MarkStale_fst MarkStale_entries MarkAllStale_fst MarkAllStale_entries
      MarkStale_Range_entries MarkStale_Range_count MarkAllStale_Range_entries
      MarkAllStale_Range_count map_of_map)

section \<open>File names of cache keys\<close>

lemma fn1: "getCacheFileName ''/a/b:en'' = ''a_b_en''"
  by (simp add: getCacheFileName_def TrimPrefix_def)

lemma fn2: "getCacheFileName ''/a:b:en'' = ''a_b_en''"
  by (simp add: getCacheFileName_def TrimPrefix_def)

lemma Write_ok_files:
  "Write s k c u = (None, s') \<Longrightarrow>
     files s' = (files s)(getCacheFileName k @ ''.br'' \<mapsto> c, getCacheFileName k @ ''.html'' \<mapsto> u)
     \<and> unreadable s' = unreadable s \<and> unwritable s' = unwritable s \<and> unremovable s' = unremovable s"
  by (auto simp: Write_def WriteFile_def Let_def split: if_splits)

text \<open>
  C10. The keys \<open>/a/b:en\<close> and \<open>/a:b:en\<close> differ and have the same file name.
  \<open>Exists\<close>, \<open>ReadBrotli\<close> and \<open>ReadHTML\<close> answer the same for both, and a
  successful \<open>Write\<close> for the second replaces the two files that a \<open>Write\<close> for the
  first had left.
\<close>

theorem getCacheFileName_not_injective:
  "''/a/b:en'' \<noteq> ''/a:b:en'' \<and>
   getCacheFileName ''/a/b:en'' = getCacheFileName ''/a:b:en'' \<and>
   Exists s ''/a/b:en'' = Exists s ''/a:b:en'' \<and>
   ReadBrotli s ''/a/b:en'' = ReadBrotli s ''/a:b:en'' \<and>
   ReadHTML s ''/a/b:en'' = ReadHTML s ''/a:b:en'' \<and>
   (Write s ''/a/b:en'' c1 u1 = (None, s1) \<and> Write s1 ''/a:b:en'' c2 u2 = (None, s2) \<longrightarrow>
      files s1 (getCacheFileName ''/a/b:en'' @ ''.br'') = Some c1 \<and>
      files s1 (getCacheFileName ''/a/b:en'' @ ''.html'') = Some u1 \<and>
      files s2 (getCacheFileName ''/a/b:en'' @ ''.br'') = Some c2 \<and>
      files s2 (getCacheFileName ''/a/b:en'' @ ''.html'') = Some u2)"
proof -
  have eq: "getCacheFileName ''/a/b:en'' = getCacheFileName ''/a:b:en''"
    by (simp add: fn1 fn2)
  show ?thesis
    using Write_ok_files [of s "''/a/b:en''" c1 u1 s1] Write_ok_files [of s1 "''/a:b:en''" c2 u2 s2]
    by (auto simp: eq Exists_def ReadBrotli_def ReadHTML_def)
qed

theorem getCacheFileName_not_injective_witness:
  "Write disk0 ''/a/b:en'' ''BR1'' ''one'' = (None, disk_a) \<and>
   Write disk_a ''/a:b:en'' ''BR2'' ''two'' = (None, disk_b) \<and>
   ReadBrotli disk_a ''/a/b:en'' = Inr ''BR1'' \<and>
   ReadBrotli disk_b ''/a/b:en'' = Inr ''BR2'' \<and>
   ReadHTML disk_b ''/a/b:en'' = Inr ''two''"
proof -
  have w1: "Write disk0 ''/a/b:en'' ''BR1'' ''one'' = (None, disk_a)"
    by (simp add: Write_def WriteFile_def disk0_def disk_a_def fn1)
  have w2: "Write disk_a ''/a:b:en'' ''BR2'' ''two'' = (None, disk_b)"
    by (simp add: Write_def WriteFile_def disk0_def disk_a_def disk_b_def fn2)
  have r: "unreadable disk_a = {} \<and> unreadable disk_b = {}"
    by (simp add: disk_a_def disk_b_def disk0_def)
  show ?thesis
    using getCacheFileName_not_injective [of disk0 "''BR1''" "''one''" disk_a "''BR2''" "''two''" disk_b]
      w1 w2 r
    by (simp add: ReadBrotli_def ReadHTML_def ReadFile_def fn1 fn2)
qed

section \<open>Updating an entry\<close>

lemma digit_in: "digit n \<in> set ''0123456789''"
  unfolding digit_def by (rule nth_mem) simp

lemma digit_neq_colon: "digit n \<noteq> CHR '':''"
  using digit_in [of n] by auto

lemma digit_eqD: "digit a = digit b \<Longrightarrow> a mod 10 = b mod 10"
proof -
  assume h: "digit a = digit b"
  have d: "distinct ''0123456789''" by simp
  have "a mod 10 < length ''0123456789''" "b mod 10 < length ''0123456789''" by simp_all
  with d h show ?thesis
    unfolding digit_def by (simp only: nth_eq_iff_index_eq)
qed

lemma dec_nat_not_Nil: "dec_nat n \<noteq> []"
  by (subst dec_nat.simps) simp

lemma dec_nat_last: "last (dec_nat n) = digit n"
  by (subst dec_nat.simps) (simp add: digit_def)

lemma dec_nat_no_colon: "CHR '':'' \<notin> set (dec_nat n)"
proof (induction n rule: dec_nat.induct)
  case (1 n)
  show ?case
  proof (cases "n < 10")
    case True
    then show ?thesis using digit_neq_colon [of n] by (subst dec_nat.simps) auto
  next
    case False
    then show ?thesis using 1 digit_neq_colon [of "n mod 10"] by (subst dec_nat.simps) auto
  qed
qed

lemma sprintf_d_not_Nil: "sprintf_d i \<noteq> []"
  by (simp add: sprintf_d_def dec_nat_not_Nil)

lemma sprintf_d_last: "last (sprintf_d i) = digit (nat \<bar>i\<bar>)"
  by (simp add: sprintf_d_def dec_nat_not_Nil dec_nat_last)

lemma sprintf_d_no_colon: "CHR '':'' \<notin> set (sprintf_d i)"
  by (simp add: sprintf_d_def dec_nat_no_colon)

lemma split_last_colon:
  assumes eq: "xs @ '':'' @ a = ys @ '':'' @ b"
    and a: "CHR '':'' \<notin> set a" and b: "CHR '':'' \<notin> set b"
  shows "xs = ys \<and> a = b"
proof -
  have "rev a @ CHR '':'' # rev xs = rev b @ CHR '':'' # rev ys"
    using arg_cong [OF eq, of rev] by simp
  moreover have "takeWhile (\<lambda>c. c \<noteq> CHR '':'') (rev a @ CHR '':'' # rev xs) = rev a"
    using a by (auto simp: takeWhile_tail)
  moreover have "takeWhile (\<lambda>c. c \<noteq> CHR '':'') (rev b @ CHR '':'' # rev ys) = rev b"
    using b by (auto simp: takeWhile_tail)
  ultimately have "rev a = rev b" by simp
  then have ab: "a = b" by simp
  have "xs @ ('':'' @ b) = ys @ ('':'' @ b)"
    using eq unfolding ab .
  then have "xs = ys" by (simp only: append_same_eq)
  with ab show ?thesis by simp
qed

lemma Suc_mod10: "Suc n mod 10 \<noteq> n mod 10"
  by (simp add: mod_Suc)

lemma abs_succ_mod10: "nat \<bar>(i::int) + 1\<bar> mod 10 \<noteq> nat \<bar>i\<bar> mod 10"
proof (cases "0 \<le> i")
  case True
  then have "nat \<bar>i + 1\<bar> = Suc (nat \<bar>i\<bar>)" by simp
  then show ?thesis by (simp only: Suc_mod10 not_False_eq_True)
next
  case False
  then have "nat \<bar>i\<bar> = Suc (nat \<bar>i + 1\<bar>)" by simp
  then show ?thesis using Suc_mod10 [of "nat \<bar>i + 1\<bar>"] by (simp only: not_sym not_False_eq_True)
qed

lemma sint_succ_digit:
  fixes g :: "64 word"
  shows "nat \<bar>sint (g + 1)\<bar> mod 10 \<noteq> nat \<bar>sint g\<bar> mod 10"
proof (cases "sint g = 2 ^ 63 - 1")
  case True
  moreover have "sint (word_of_int (2 ^ 63 - 1) :: 64 word) = 2 ^ 63 - 1"
    by simp
  ultimately have "sint g = sint (word_of_int (2 ^ 63 - 1) :: 64 word)"
    by (simp only:)
  then have "g = word_of_int (2 ^ 63 - 1)"
    by (rule signed_word_eqI)
  then show ?thesis by simp
next
  case False
  have lo: "- (2 ^ 63) \<le> sint g" using sint_ge [of g] by simp
  have hi: "sint g < 2 ^ 63" using sint_lt [of g] by simp
  have "sint (g + 1) = signed_take_bit 63 (sint g + 1)"
    by (simp add: sint_word_ariths)
  also have "\<dots> = sint g + 1"
    using lo hi False by (simp add: signed_take_bit_int_eq_self_iff)
  finally have s: "sint (g + 1) = sint g + 1" .
  show ?thesis unfolding s by (rule abs_succ_mod10)
qed

lemma fingerprint_input_changes:
  "fingerprint_input c (g + 1) t \<noteq> fingerprint_input c' g t'"
proof
  assume eq: "fingerprint_input c (g + 1) t = fingerprint_input c' g t'"
  then have "(c @ sprintf_d (sint (g + 1))) @ '':'' @ sprintf_d (Unix t)
      = (c' @ sprintf_d (sint g)) @ '':'' @ sprintf_d (Unix t')"
    by (simp add: fingerprint_input_def)
  then have "c @ sprintf_d (sint (g + 1)) = c' @ sprintf_d (sint g)"
    using split_last_colon sprintf_d_no_colon by blast
  then have "last (c @ sprintf_d (sint (g + 1))) = last (c' @ sprintf_d (sint g))"
    by (simp only:)
  then have "digit (nat \<bar>sint (g + 1)\<bar>) = digit (nat \<bar>sint g\<bar>)"
    by (simp add: sprintf_d_not_Nil sprintf_d_last)
  then show False
    using digit_eqD sint_succ_digit by blast
qed

lemma hexdigit_eqD: "hexdigit a = hexdigit b \<Longrightarrow> a mod 16 = b mod 16"
proof -
  assume h: "hexdigit a = hexdigit b"
  have d: "distinct ''0123456789abcdef''" by simp
  have "a mod 16 < length ''0123456789abcdef''" "b mod 16 < length ''0123456789abcdef''"
    by simp_all
  with d h show ?thesis
    unfolding hexdigit_def by (simp only: nth_eq_iff_index_eq)
qed

lemma hex_byte_inj: "hex_byte a = hex_byte b \<Longrightarrow> a = b"
proof -
  assume h: "hex_byte a = hex_byte b"
  let ?m = "of_char a :: nat" and ?n = "of_char b :: nat"
  have m: "?m < 256" and n: "?n < 256" by simp_all
  from h have "hexdigit (?m div 16) = hexdigit (?n div 16)" and "hexdigit (?m mod 16) = hexdigit (?n mod 16)"
    by (simp_all add: hex_byte_def)
  then have d: "(?m div 16) mod 16 = (?n div 16) mod 16" and r: "?m mod 16 = ?n mod 16"
    using hexdigit_eqD [of "?m div 16" "?n div 16"] hexdigit_eqD [of "?m mod 16" "?n mod 16"]
    by simp_all
  have "\<And>k::nat. k < 256 \<Longrightarrow> k div 16 < 16" by simp
  then have "?m div 16 < 16" "?n div 16 < 16" using m n by blast+
  then have "?m div 16 = ?n div 16" using d by simp
  then have "?m = ?n" using r by (metis div_mult_mod_eq)
  then show ?thesis by simp
qed

lemma EncodeToString_Cons: "EncodeToString (b # bs) = hex_byte b @ EncodeToString bs"
  by (simp add: EncodeToString_def)

lemma EncodeToString_Nil: "EncodeToString [] = []"
  by (simp add: EncodeToString_def)

lemma hex_byte_length: "length (hex_byte b) = 2"
  by (simp add: hex_byte_def)

lemma EncodeToString_inj: "EncodeToString xs = EncodeToString ys \<Longrightarrow> xs = ys"
proof (induction xs arbitrary: ys)
  case Nil
  show ?case
  proof (cases ys)
    case Nil
    then show ?thesis by simp
  next
    case (Cons y ys')
    have "length (EncodeToString ys) = 2 + length (EncodeToString ys')"
      by (simp only: Cons EncodeToString_Cons length_append hex_byte_length)
    moreover have "length (EncodeToString ys) = length (EncodeToString ([] :: bytes))"
      by (rule arg_cong [OF Nil.prems [symmetric]])
    ultimately have False by (simp only: EncodeToString_Nil list.size)
    then show ?thesis ..
  qed
next
  case (Cons x xs)
  show ?case
  proof (cases ys)
    case Nil
    have "length (EncodeToString (x # xs)) = 2 + length (EncodeToString xs)"
      by (simp only: EncodeToString_Cons length_append hex_byte_length)
    moreover have "length (EncodeToString (x # xs)) = length (EncodeToString ([] :: bytes))"
      using arg_cong [OF Cons.prems, of length] unfolding Nil .
    ultimately have False by (simp only: EncodeToString_Nil list.size)
    then show ?thesis ..
  next
    case (Cons y ys')
    have len: "length (hex_byte x) = length (hex_byte y)"
      by (simp only: hex_byte_length)
    have "hex_byte x @ EncodeToString xs = hex_byte y @ EncodeToString ys'"
      using Cons.prems unfolding Cons EncodeToString_Cons .
    then have "hex_byte x = hex_byte y \<and> EncodeToString xs = EncodeToString ys'"
      using append_eq_append_conv [of "hex_byte x" "hex_byte y"] len by blast
    then have "x = y" and "xs = ys'"
      using hex_byte_inj Cons.IH by blast+
    then show ?thesis by (simp only: Cons)
  qed
qed

lemma Update_fields:
  "Content (Update h now e c rp) = c"
  "RenderedAt (Update h now e c rp) = now"
  "Strategy (Update h now e c rp) = Strategy e"
  "Generation (Update h now e c rp) = Generation e + 1"
  "ETag (Update h now e c rp) = generateETag h c (Generation e + 1) now"
  "RequestPath (Update h now e c rp) = (if rp = [] then RequestPath e else rp)"
  "stale (Update h now e c rp) = False"
  by (simp_all add: Update_def MarkFresh_def Let_def)

lemma sint_succ:
  fixes g :: "64 word"
  assumes "sint g \<noteq> 2 ^ 63 - 1"
  shows "sint (g + 1) = sint g + 1"
proof -
  have lo: "- (2 ^ 63) \<le> sint g" using sint_ge [of g] by simp
  have hi: "sint g < 2 ^ 63" using sint_lt [of g] by simp
  have "sint (g + 1) = signed_take_bit 63 (sint g + 1)"
    by (simp add: sint_word_ariths)
  also have "\<dots> = sint g + 1"
    using lo hi assms by (simp add: signed_take_bit_int_eq_self_iff)
  finally show ?thesis .
qed

lemma etag_ok_NewEntry: "etag_ok h (NewEntry h now c st rp)"
  by (simp add: etag_ok_def NewEntry_def)

text \<open>
  C3, as amended. For an entry whose generation is below the largest \<open>int64\<close>,
  \<open>Update\<close> increases the generation by exactly 1. It clears the stale flag, and it
  overwrites the request path only when the path supplied is not empty. The bytes fed to
  the hash (the content, then the generation and the render time in seconds) always
  differ from those of the entry before the call, whatever the old and the new content
  are; the new ETag is the fingerprint of the new fields, and it differs from the old
  ETag of an entry that satisfied the invariant unless SHA-256 maps the two inputs to the
  same digest.
\<close>

theorem Update_effect:
  "(sint (Generation e) \<noteq> 2 ^ 63 - 1 \<longrightarrow>
      sint (Generation (Update h now e c rp)) = sint (Generation e) + 1) \<and>
   \<not> stale (Update h now e c rp) \<and>
   (rp \<noteq> [] \<longrightarrow> RequestPath (Update h now e c rp) = rp) \<and>
   (rp = [] \<longrightarrow> RequestPath (Update h now e c rp) = RequestPath e) \<and>
   fingerprint_input (Content (Update h now e c rp)) (Generation (Update h now e c rp))
       (RenderedAt (Update h now e c rp))
     \<noteq> fingerprint_input (Content e) (Generation e) (RenderedAt e) \<and>
   etag_ok h (Update h now e c rp) \<and>
   (etag_ok h e \<and>
    h (fingerprint_input (Content (Update h now e c rp)) (Generation (Update h now e c rp))
         (RenderedAt (Update h now e c rp)))
      \<noteq> h (fingerprint_input (Content e) (Generation e) (RenderedAt e))
    \<longrightarrow> ETag (Update h now e c rp) \<noteq> ETag e)"
  using EncodeToString_inj
  by (auto simp: Update_fields sint_succ fingerprint_input_changes etag_ok_def generateETag_def)

theorem Update_effect_witness:
  "sint (Generation (Update (sha256 lib0) 5 entry0 ''BR'' [])) = 2 \<and>
   \<not> stale (Update (sha256 lib0) 5 entry0 ''BR'' []) \<and>
   RequestPath (Update (sha256 lib0) 5 entry0 ''BR'' []) = ''/en/about'' \<and>
   RequestPath (Update (sha256 lib0) 5 entry0 ''BR'' ''/tr/hakkinda'') = ''/tr/hakkinda'' \<and>
   Content (Update (sha256 lib0) 5 entry0 ''BR'' []) = Content entry0 \<and>
   ETag (Update (sha256 lib0) 5 entry0 ''BR'' []) \<noteq> ETag entry0"
proof -
  have ok: "etag_ok (sha256 lib0) entry0" by (simp add: entry0_def etag_ok_NewEntry)
  have g: "sint (Generation entry0) = 1" "RequestPath entry0 = ''/en/about''" "Content entry0 = ''BR''"
    by (simp_all add: entry0_def NewEntry_def)
  have h: "sha256 lib0 = (\<lambda>b. b)" by (simp add: lib0_def)
  have ne: "sha256 lib0 (fingerprint_input (Content (Update (sha256 lib0) 5 entry0 ''BR'' []))
                (Generation (Update (sha256 lib0) 5 entry0 ''BR'' []))
                (RenderedAt (Update (sha256 lib0) 5 entry0 ''BR'' [])))
          \<noteq> sha256 lib0 (fingerprint_input (Content entry0) (Generation entry0) (RenderedAt entry0))"
    unfolding h by (simp add: Update_fields fingerprint_input_changes)
  show ?thesis
    using Update_effect [of entry0 "sha256 lib0" 5 "''BR''" "[]"]
      Update_effect [of entry0 "sha256 lib0" 5 "''BR''" "''/tr/hakkinda''"] ok g ne
    by (simp add: Update_fields)
qed

text \<open>
  C3 as stated fails at the largest generation: the counter is an \<open>int64\<close> and
  \<open>Generation++\<close> wraps to the smallest value instead of increasing by 1.
\<close>

theorem Update_generation_wraps:
  "sint (Generation entry_max) = 9223372036854775807 \<and>
   sint (Generation (Update (sha256 lib0) 5 entry_max ''BR'' ''/en/about'')) = - 9223372036854775808"
  by (simp add: Update_fields entry_max_def)

section \<open>The schedule of the revalidator\<close>

text \<open>
  For an hour from 0 to 23 the first revalidation runs at the next instant whose time of
  day is that hour, less than 24 hours after \<open>Start\<close>. Every later one runs a whole
  number of days after the call of \<open>Start\<close>.
\<close>

lemma Date_today_mod:
  assumes "0 \<le> h" "h \<le> 23"
  shows "Date_today now h mod (24 * Hour) = h * Hour"
proof -
  have "Date_today now h = 24 * Hour * (now div (24 * Hour)) + h * Hour"
    by (simp add: Date_today_def minus_mod_eq_mult_div)
  then have "Date_today now h mod (24 * Hour) = (h * Hour) mod (24 * Hour)"
    by (simp only: mod_mult_self4)
  also have "\<dots> = h * Hour"
    using assms by (simp add: Hour_def Second_def)
  finally show ?thesis .
qed

lemma Date_today_bounds:
  assumes "0 \<le> h" "h \<le> 23"
  shows "now - 24 * Hour < Date_today now h \<and> Date_today now h < now + 24 * Hour"
proof -
  have lin: "\<And>r x :: int. 0 \<le> r \<Longrightarrow> r < 86400000000000 \<Longrightarrow> 0 \<le> x \<Longrightarrow> x \<le> 82800000000000 \<Longrightarrow>
      now - 86400000000000 < now - r + x \<and> now - r + x < now + 86400000000000"
    by linarith
  have r: "0 \<le> now mod 86400000000000" "now mod 86400000000000 < 86400000000000"
    by simp_all
  have x: "0 \<le> h * 3600000000000" "h * 3600000000000 \<le> 82800000000000"
    using assms by simp_all
  have d: "Date_today now h = now - now mod 86400000000000 + h * 3600000000000"
    by (simp add: Date_today_def Hour_def Second_def)
  have h: "24 * Hour = 86400000000000" by (simp add: Hour_def Second_def)
  show ?thesis unfolding d h by (rule lin [OF r x])
qed

lemma Start_first_firing:
  assumes "0 \<le> h" "h \<le> 23"
  shows "\<exists>t. fires_at (Start now rv h) 0 = Some t \<and> now \<le> t \<and> t < now + 24 * Hour \<and>
           t mod (24 * Hour) = h * Hour"
proof -
  let ?n = "Date_today now h"
  let ?t = "if ?n < now then ?n + 24 * Hour else ?n"
  from Date_today_bounds [OF assms, of now]
  have b: "now \<le> ?t" "?t < now + 24 * Hour" by auto
  then have "Sub ?t now = ?t - now"
    by (simp add: Sub_def Let_def maxDuration_def minDuration_def Hour_def Second_def)
  then have "fires_at (Start now rv h) 0 = Some ?t"
    using b by (simp add: fires_at_def Start_def Let_def)
  moreover have "?t mod (24 * Hour) = h * Hour"
    using Date_today_mod [OF assms, of now] by simp
  ultimately show ?thesis using b by blast
qed

lemma Start_later_firings:
  "fires_at (Start now rv h) (Suc k) = Some (now + (int k + 1) * (24 * Hour))"
  by (simp add: fires_at_def Start_def Let_def)

text \<open>
  C9. \<open>Start(15)\<close> called at 10:00: the first revalidation runs at 15:00, the
  second at 10:00 the next day, 19 hours later and not 24, and the following ones at
  10:00 every day. The ticker is made when \<open>Start\<close> is called, before the initial
  sleep, so its ticks are 24 hours apart from the call of \<open>Start\<close> and not from the
  first revalidation.
\<close>

theorem Start_later_firings_drift:
  "fires_at (Start (10 * Hour) NewRevalidator 15) 0 = Some (15 * Hour) \<and>
   fires_at (Start (10 * Hour) NewRevalidator 15) 1 = Some (34 * Hour) \<and>
   fires_at (Start (10 * Hour) NewRevalidator 15) 2 = Some (58 * Hour) \<and>
   34 * Hour - 15 * Hour = 19 * Hour \<and>
   34 * Hour \<noteq> 15 * Hour + 24 * Hour"
  by (simp add: fires_at_def Start_def Date_today_def NewRevalidator_def Sub_def Let_def
      Hour_def Second_def maxDuration_def minDuration_def)

section \<open>Bulk warming\<close>

text \<open>
  A render that fails by its status is skipped: the goroutine returns and the count
  stays. A path that is not a request target makes \<open>makeCacheRequest\<close> panic before the
  handler is called, and the goroutine panics with it.
\<close>

lemma makeCacheRequest_status:
  "request_target path \<Longrightarrow> router path m = Recorded code body m' \<Longrightarrow> code \<noteq> 200 \<Longrightarrow>
   makeCacheRequest request_target router m path = Returns (Inl (StatusError code), m')"
  by (simp add: makeCacheRequest_def)

lemma makeCacheRequest_panics:
  "\<not> request_target path \<Longrightarrow> makeCacheRequest request_target router m path = Panics"
  by (simp add: makeCacheRequest_def)

lemma go_status_skips:
  "ForceRebuild config \<Longrightarrow> path_for route lang \<noteq> [] \<Longrightarrow> request_target (path_for route lang) \<Longrightarrow>
   Router config (path_for route lang) m = Recorded code body m' \<Longrightarrow> code \<noteq> 200 \<Longrightarrow>
   cacheStaticRoute_go request_target lib now route config (m, count) lang = Returns (m', count)"
  by (simp add: cacheStaticRoute_go_def makeCacheRequest_def Let_def)

lemma go_panics:
  "ForceRebuild config \<or> fst (Get lib now m (GetCacheKey (Canonical route) lang [])) = None \<Longrightarrow>
   path_for route lang \<noteq> [] \<Longrightarrow> \<not> request_target (path_for route lang) \<Longrightarrow>
   cacheStaticRoute_go request_target lib now route config (m, count) lang = Panics"
  by (auto simp: cacheStaticRoute_go_def makeCacheRequest_def Let_def split: prod.splits)

text \<open>
  C5. A catalog whose only route is static, has no parameter and gives the language
  \<open>en\<close> the path \<open>/en/about us\<close>, warmed from the empty cache: the route is not
  skipped, \<open>makeCacheRequest\<close> panics on the path, and so does the goroutine of the
  language, in force-rebuild mode or not. Nothing recovers from the panic, so the process
  ends: the batch is aborted and no total is reported.
\<close>

theorem Bootstrap_goroutine_panics:
  "warmable route_typo \<and>
   path_for route_typo ''en'' = ''/en/about us'' \<and>
   \<not> request_target0 ''/en/about us'' \<and>
   makeCacheRequest request_target0 (Router config_typo) manager0 ''/en/about us'' = Panics \<and>
   cacheStaticRoute_go request_target0 lib0 0 route_typo config_typo (manager0, 0) ''en'' = Panics \<and>
   cacheStaticRoute_go request_target0 lib0 0 route_typo (config_typo\<lparr>ForceRebuild := True\<rparr>)
     (manager0, 0) ''en'' = Panics"
  by (simp add: warmable_def route_typo_def path_for_def request_target0_def makeCacheRequest_def
      cacheStaticRoute_go_def config_typo_def GetCacheKey_def Get_def manager0_def disk0_def
      Exists_iff fn_about Let_def)

end
